theory Spec2Isabelle
  imports Main
begin

section \<open>Python values, exceptions and the outside world\<close>

text \<open>
  The module \<^verbatim>\<open>utils.py\<close> is glue around the operating system, the warehouse driver,
  pandas and plotly. Its own code is the control flow between those calls: which branch
  is taken, which exception is caught, what is returned. The embedding keeps that control
  flow and takes every call that leaves the module as a component of an explicit world
  (a record of outcomes), so that each \<^verbatim>\<open>raise\<close> and each \<^verbatim>\<open>except\<close> of the source is a
  branch of the model. Calls to the logger write to standard output, never raise (the
  handlers of \<^verbatim>\<open>logging\<close> catch their own failures) and do not influence any returned
  value; they are left out.
\<close>

text \<open>
  An exception instance of a subclass of \<^verbatim>\<open>Exception\<close>, with its class name and the
  text that \<^verbatim>\<open>str(e)\<close> gives. These are the exceptions that \<^verbatim>\<open>except Exception\<close> catches.
\<close>

datatype exn = Exn (cls: string) (str: string)

text \<open>The Python values that occur as configuration values, cells and labels.\<close>

datatype pyval = PNone | PBool bool | PInt int | PStr string

text \<open>
  \<^verbatim>\<open>try: body except Exception as e: handler(e)\<close>: the handler runs exactly when the
  body raises; what the handler itself returns or raises is the outcome then.
\<close>

definition try_except :: "exn + 'a \<Rightarrow> (exn \<Rightarrow> exn + 'a) \<Rightarrow> exn + 'a" where
  "try_except body handler = (case body of Inl e \<Rightarrow> handler e | Inr v \<Rightarrow> Inr v)"

text \<open>
  Sequencing of two statements: when the first raises, the second is not run and the
  exception is the outcome.
\<close>

definition and_then :: "exn + 'a \<Rightarrow> ('a \<Rightarrow> exn + 'b) \<Rightarrow> exn + 'b" where
  "and_then stmt rest = (case stmt of Inl e \<Rightarrow> Inl e | Inr v \<Rightarrow> rest v)"

subsection \<open>Strings\<close>

text \<open>
  A \<^typ>\<open>char\<close> stands for a code point below 256. \<^verbatim>\<open>str.isspace\<close> is true in that
  range for TAB, LF, VT, FF, CR, the separators FS, GS, RS, US, the space, NEL (0x85)
  and the no-break space (0xA0).
\<close>

definition isspace :: "char \<Rightarrow> bool" where
  "isspace c = ((of_char c :: nat) \<in> set [9, 10, 11, 12, 13, 28, 29, 30, 31, 32, 133, 160])"

text \<open>\<^verbatim>\<open>str.strip()\<close>: the string without its leading and trailing whitespace.\<close>

definition strip :: "string \<Rightarrow> string" where
  "strip s = rev (dropWhile isspace (rev (dropWhile isspace s)))"

subsection \<open>The file system\<close>

text \<open>
  \<^verbatim>\<open>os.path.exists(p)\<close> answers a boolean. \<^verbatim>\<open>open(p, "r")\<close> raises or gives a file
  object, whose \<^verbatim>\<open>read()\<close> raises or gives the decoded text. The two calls are
  independent observations of the world: a path that exists may still fail to open.
\<close>

datatype text_file = TextFile (read: "exn + string")

record filesystem =
  os_path_exists :: "string \<Rightarrow> bool"
  open_r :: "string \<Rightarrow> exn + text_file"

subsection \<open>Configuration\<close>

text \<open>
  The module-level constants, each the result of \<^verbatim>\<open>os.getenv\<close>: a string, or
  \<^verbatim>\<open>None\<close> when the variable is not set.
\<close>

record config =
  SNOWFLAKE_USER :: pyval
  SNOWFLAKE_PASSWORD :: pyval
  SNOWFLAKE_ACCOUNT :: pyval
  SNOWFLAKE_WAREHOUSE :: pyval
  SNOWFLAKE_DATABASE :: pyval
  SNOWFLAKE_SCHEMA :: pyval
  SNOWFLAKE_HOST :: pyval

section \<open>Credential resolution\<close>

definition token_path :: string where
  "token_path = ''/snowflake/session/token''"

text \<open>
  \<^verbatim>\<open>get_login_token\<close>: the result is \<^verbatim>\<open>None\<close> or a string; an exception of the
  \<^verbatim>\<open>with\<close> block is logged and raised again.
\<close>

definition get_login_token :: "filesystem \<Rightarrow> exn + string option" where
  "get_login_token fs =
     (if os_path_exists fs token_path then
        try_except
          (and_then (open_r fs token_path) (\<lambda>f.
           and_then (read f) (\<lambda>s.
           Inr (Some (strip s)))))
          (\<lambda>e. Inl e)
      else Inr None)"

text \<open>Truth value of \<^verbatim>\<open>token\<close> in \<^verbatim>\<open>if token:\<close>: \<^verbatim>\<open>None\<close> and the empty string are false.\<close>

definition truthy :: "string option \<Rightarrow> bool" where
  "truthy token = (case token of None \<Rightarrow> False | Some s \<Rightarrow> s \<noteq> [])"

text \<open>The two dictionary displays of \<^verbatim>\<open>get_connection_params\<close>.\<close>

definition oauth_params :: "config \<Rightarrow> string \<Rightarrow> (string \<rightharpoonup> pyval)" where
  "oauth_params cfg token =
     [''account'' \<mapsto> SNOWFLAKE_ACCOUNT cfg,
      ''host'' \<mapsto> SNOWFLAKE_HOST cfg,
      ''authenticator'' \<mapsto> PStr ''oauth'',
      ''token'' \<mapsto> PStr token,
      ''warehouse'' \<mapsto> SNOWFLAKE_WAREHOUSE cfg,
      ''database'' \<mapsto> SNOWFLAKE_DATABASE cfg,
      ''schema'' \<mapsto> SNOWFLAKE_SCHEMA cfg]"

definition password_params :: "config \<Rightarrow> (string \<rightharpoonup> pyval)" where
  "password_params cfg =
     [''account'' \<mapsto> SNOWFLAKE_ACCOUNT cfg,
      ''host'' \<mapsto> SNOWFLAKE_HOST cfg,
      ''user'' \<mapsto> SNOWFLAKE_USER cfg,
      ''password'' \<mapsto> SNOWFLAKE_PASSWORD cfg,
      ''warehouse'' \<mapsto> SNOWFLAKE_WAREHOUSE cfg,
      ''database'' \<mapsto> SNOWFLAKE_DATABASE cfg,
      ''schema'' \<mapsto> SNOWFLAKE_SCHEMA cfg]"

definition get_connection_params :: "config \<Rightarrow> filesystem \<Rightarrow> exn + (string \<rightharpoonup> pyval)" where
  "get_connection_params cfg fs =
     and_then (get_login_token fs) (\<lambda>token.
       if truthy token then Inr (oauth_params cfg (the token))
       else Inr (password_params cfg))"

section \<open>The warehouse driver and pandas\<close>

text \<open>
  A table as pandas holds it: the column labels and the rows, one list of cells per index
  entry. \<^verbatim>\<open>df.empty\<close> is true when either axis has length zero.
\<close>

record dataframe =
  columns :: "pyval list"
  rows :: "pyval list list"

definition df_empty :: "dataframe \<Rightarrow> bool" where
  "df_empty df = (columns df = [] \<or> rows df = [])"

text \<open>\<^verbatim>\<open>pd.DataFrame()\<close>: no columns and no rows.\<close>

definition empty_frame :: dataframe where
  "empty_frame = \<lparr>columns = [], rows = []\<rparr>"

text \<open>\<^verbatim>\<open>pd.DataFrame({"Error": [msg]})\<close>: one column, one row, one cell.\<close>

definition error_frame :: "string \<Rightarrow> dataframe" where
  "error_frame msg = \<lparr>columns = [PStr ''Error''], rows = [ [PStr msg] ]\<rparr>"

text \<open>
  The calls into pandas whose outcome depends on the data: the constructor
  \<^verbatim>\<open>pd.DataFrame(rows, columns=labels)\<close>, and the chain
  \<^verbatim>\<open>drop(...).groupby(...).apply(...).to_dict()\<close> that turns the metadata frame into a
  nested dictionary (table to column to type). Either may raise.
\<close>

type_synonym metadata = "pyval \<rightharpoonup> (pyval \<rightharpoonup> pyval)"

record pandas =
  pd_DataFrame :: "pyval list list \<Rightarrow> pyval list \<Rightarrow> exn + dataframe"
  groupby_to_dict :: "dataframe \<Rightarrow> exn + metadata"

text \<open>
  An entry of \<^verbatim>\<open>cursor.description\<close>; \<^verbatim>\<open>desc[0]\<close> is the column name. The attribute is
  \<^verbatim>\<open>None\<close> when the statement produced no result set, and iterating \<^verbatim>\<open>None\<close> raises
  a \<^verbatim>\<open>TypeError\<close>.
\<close>

datatype result_metadata = ResultMetadata (col_name: string) (type_code: int)

definition column_names :: "result_metadata list option \<Rightarrow> exn + pyval list" where
  "column_names description =
     (case description of
        None \<Rightarrow> Inl (Exn ''TypeError'' ''NoneType object is not iterable'')
      | Some descs \<Rightarrow> Inr (map (\<lambda>desc. PStr (col_name desc)) descs))"

text \<open>
  A cursor after \<^verbatim>\<open>execute\<close> has returned: what \<^verbatim>\<open>fetchall()\<close>, \<^verbatim>\<open>description\<close> and
  \<^verbatim>\<open>close()\<close> give. A cursor before it: what \<^verbatim>\<open>execute(sql)\<close> does. A connection:
  what \<^verbatim>\<open>cursor()\<close> does.
\<close>

record executed_cursor =
  fetchall :: "exn + pyval list list"
  description :: "result_metadata list option"
  close :: "exn + unit"

record sf_cursor =
  execute :: "string \<Rightarrow> exn + executed_cursor"

record sf_connection =
  cursor :: "exn + sf_cursor"

section \<open>Metadata fetch\<close>

definition metadata_query :: string where
  "metadata_query =
     [CHR 0x0A] @ ''        SELECT TABLE_NAME, COLUMN_NAME, DATA_TYPE'' @
     [CHR 0x0A] @ ''        FROM INFORMATION_SCHEMA.COLUMNS;'' @
     [CHR 0x0A] @ ''    ''"

text \<open>
  The \<^verbatim>\<open>try\<close> block of \<^verbatim>\<open>get_snowflake_metadata\<close>. The function returns a dictionary
  (\<open>Some\<close>) or \<^verbatim>\<open>None\<close>.
\<close>

definition get_snowflake_metadata_try :: "pandas \<Rightarrow> sf_connection \<Rightarrow> exn + metadata option" where
  "get_snowflake_metadata_try pd conn =
     and_then (cursor conn) (\<lambda>cur.
     and_then (execute cur metadata_query) (\<lambda>ex.
     and_then (fetchall ex) (\<lambda>metadata_rows.
     and_then (close ex) (\<lambda>_.
       if metadata_rows = [] then Inr (Some Map.empty)
       else
         and_then (pd_DataFrame pd metadata_rows
                     [PStr ''TABLE_NAME'', PStr ''COLUMN_NAME'', PStr ''DATA_TYPE'']) (\<lambda>metadata_df.
         and_then (groupby_to_dict pd metadata_df) (\<lambda>metadata_dict.
         Inr (Some metadata_dict)))))))"

definition get_snowflake_metadata :: "pandas \<Rightarrow> sf_connection \<Rightarrow> exn + metadata option" where
  "get_snowflake_metadata pd conn =
     try_except (get_snowflake_metadata_try pd conn) (\<lambda>e. Inr None)"

section \<open>Query execution\<close>

text \<open>The \<^verbatim>\<open>try\<close> block of \<^verbatim>\<open>query_snowflake\<close>.\<close>

definition query_snowflake_try :: "pandas \<Rightarrow> sf_connection \<Rightarrow> string \<Rightarrow> exn + dataframe" where
  "query_snowflake_try pd conn sql_query =
     and_then (cursor conn) (\<lambda>cur.
     and_then (execute cur sql_query) (\<lambda>ex.
     and_then (fetchall ex) (\<lambda>result.
     and_then (column_names (description ex)) (\<lambda>cols.
     and_then (close ex) (\<lambda>_.
       if result = [] then Inr empty_frame
       else pd_DataFrame pd result cols)))))"

definition query_snowflake :: "pandas \<Rightarrow> sf_connection \<Rightarrow> string \<Rightarrow> exn + dataframe" where
  "query_snowflake pd conn sql_query =
     try_except (query_snowflake_try pd conn sql_query) (\<lambda>e. Inr (error_frame (str e)))"

section \<open>Chart generation\<close>

text \<open>
  The calls into plotly, over an arbitrary type of figures: \<^verbatim>\<open>px.bar(df, x=, y=, title=)\<close>,
  \<^verbatim>\<open>fig.update_layout(plot_bgcolor=, paper_bgcolor=, font=dict(color=))\<close>, which changes
  the figure in place (here: gives the changed figure), and \<^verbatim>\<open>pio.to_html(fig, full_html=)\<close>.
\<close>

record 'fig plotly =
  px_bar :: "dataframe \<Rightarrow> pyval \<Rightarrow> pyval \<Rightarrow> string \<Rightarrow> exn + 'fig"
  update_layout :: "'fig \<Rightarrow> string \<Rightarrow> string \<Rightarrow> string \<Rightarrow> exn + 'fig"
  to_html :: "'fig \<Rightarrow> bool \<Rightarrow> exn + string"

text \<open>
  The \<^verbatim>\<open>try\<close> block of \<^verbatim>\<open>visual_generate\<close>. The argument \<^verbatim>\<open>data\<close> is a table, of which
  \<^verbatim>\<open>pd.DataFrame(data)\<close> is a frame with the same labels and rows. The labels
  \<^verbatim>\<open>df.columns[0]\<close> and \<^verbatim>\<open>df.columns[1]\<close> are read only where there are two.
\<close>

definition visual_generate_try :: "'fig plotly \<Rightarrow> string \<Rightarrow> dataframe \<Rightarrow> string \<Rightarrow> exn + string" where
  "visual_generate_try plt query data response =
     (let df = data in
        if df_empty df \<or> length (columns df) < 2 then Inr ''''
        else
          and_then (px_bar plt df (columns df ! 0) (columns df ! 1) response) (\<lambda>fig.
          and_then (update_layout plt fig ''#2B2C2E'' ''#2B2C2E'' ''#FFFFFF'') (\<lambda>fig.
          and_then (to_html plt fig False) (\<lambda>html_str.
          Inr html_str))))"

definition visual_generate :: "'fig plotly \<Rightarrow> string \<Rightarrow> dataframe \<Rightarrow> string \<Rightarrow> exn + string" where
  "visual_generate plt query data response =
     try_except (visual_generate_try plt query data response) (\<lambda>e. Inr '''')"

section \<open>Example worlds\<close>

text \<open>A configuration in which the host variable is not set.\<close>

definition cfg_example :: config where
  "cfg_example =
     \<lparr>SNOWFLAKE_USER = PStr ''analyst'', SNOWFLAKE_PASSWORD = PStr ''secret'',
      SNOWFLAKE_ACCOUNT = PStr ''acme'', SNOWFLAKE_WAREHOUSE = PStr ''WH'',
      SNOWFLAKE_DATABASE = PStr ''DB'', SNOWFLAKE_SCHEMA = PStr ''PUBLIC'',
      SNOWFLAKE_HOST = PNone\<rparr>"

text \<open>A file system without the token file: nothing exists, every open fails.\<close>

definition fs_absent :: filesystem where
  "fs_absent =
     \<lparr>os_path_exists = (\<lambda>p. False),
      open_r = (\<lambda>p. Inl (Exn ''FileNotFoundError'' p))\<rparr>"

text \<open>A file system whose only file is the token file, with a given outcome of reading it.\<close>

definition fs_with :: "exn + string \<Rightarrow> filesystem" where
  "fs_with outcome =
     \<lparr>os_path_exists = (\<lambda>p. p = token_path),
      open_r = (\<lambda>p. if p = token_path then Inr (TextFile outcome)
                     else Inl (Exn ''FileNotFoundError'' p))\<rparr>"

text \<open>A file system in which the token file exists and may not be opened.\<close>

definition fs_denied :: filesystem where
  "fs_denied =
     \<lparr>os_path_exists = (\<lambda>p. p = token_path),
      open_r = (\<lambda>p. Inl (Exn ''PermissionError'' p))\<rparr>"

text \<open>
  One pandas: the constructor accepts rows that are as wide as the list of labels, and
  the grouping builds the nested dictionary row by row, a later row of a table
  overwriting an earlier one for the same column.
\<close>

definition add_column :: "metadata \<Rightarrow> pyval list \<Rightarrow> metadata" where
  "add_column m r =
     (case r of
        [t, c, d] \<Rightarrow> m(t \<mapsto> (case m t of None \<Rightarrow> [c \<mapsto> d] | Some cs \<Rightarrow> cs(c \<mapsto> d)))
      | _ \<Rightarrow> m)"

definition pandas_example :: pandas where
  "pandas_example =
     \<lparr>pd_DataFrame = (\<lambda>rs labels.
        if list_all (\<lambda>r. length r = length labels) rs
        then Inr \<lparr>columns = labels, rows = rs\<rparr>
        else Inl (Exn ''ValueError'' ''columns passed do not match the data'')),
      groupby_to_dict = (\<lambda>df. Inr (foldl add_column Map.empty (rows df)))\<rparr>"

text \<open>Connections with one behaviour for every statement.\<close>

definition conn_of :: "exn + executed_cursor \<Rightarrow> sf_connection" where
  "conn_of outcome = \<lparr>cursor = Inr \<lparr>execute = (\<lambda>sql. outcome)\<rparr>\<rparr>"

definition no_rows_cursor :: executed_cursor where
  "no_rows_cursor =
     \<lparr>fetchall = Inr [],
      description = Some [ResultMetadata ''ID'' 0, ResultMetadata ''NAME'' 2],
      close = Inr ()\<rparr>"

definition conn_no_rows :: sf_connection where
  "conn_no_rows = conn_of (Inr no_rows_cursor)"

definition sql_error :: exn where
  "sql_error = Exn ''ProgrammingError'' ''SQL compilation error''"

definition conn_failing :: sf_connection where
  "conn_failing = conn_of (Inl sql_error)"

text \<open>
  One plotly: a figure records its title and the two axis labels, and its markup shows the
  title.
\<close>

record figure =
  fig_title :: string
  fig_x :: pyval
  fig_y :: pyval
  fig_colors :: "string list"

definition plotly_example :: "figure plotly" where
  "plotly_example =
     \<lparr>px_bar = (\<lambda>df x y title.
        Inr \<lparr>fig_title = title, fig_x = x, fig_y = y, fig_colors = []\<rparr>),
      update_layout = (\<lambda>fig plot_bgcolor paper_bgcolor color.
        Inr (fig\<lparr>fig_colors := [plot_bgcolor, paper_bgcolor, color]\<rparr>)),
      to_html = (\<lambda>fig full_html. Inr (''<div>'' @ fig_title fig @ ''</div>''))\<rparr>"

text \<open>Tables: one column and two rows; two columns and no row.\<close>

definition table_one_column :: dataframe where
  "table_one_column = \<lparr>columns = [PStr ''label''], rows = [ [PStr ''A''], [PStr ''B''] ]\<rparr>"

definition table_no_rows :: dataframe where
  "table_no_rows = \<lparr>columns = [PStr ''label'', PStr ''value''], rows = []\<rparr>"

text \<open>A connection whose statements give one row of two cells, and one that gives two full rows.\<close>

definition conn_short_row :: sf_connection where
  "conn_short_row =
     conn_of (Inr \<lparr>fetchall = Inr [ [PStr ''ORDERS'', PStr ''ID''] ],
                   description = Some [ResultMetadata ''TABLE_NAME'' 2, ResultMetadata ''COLUMN_NAME'' 2],
                   close = Inr ()\<rparr>)"

definition conn_two_rows :: sf_connection where
  "conn_two_rows =
     conn_of (Inr \<lparr>fetchall = Inr [ [PStr ''A'', PInt 10], [PStr ''B'', PInt 20] ],
                   description = Some [ResultMetadata ''label'' 2, ResultMetadata ''value'' 0],
                   close = Inr ()\<rparr>)"

definition table_label_value :: dataframe where
  "table_label_value =
     \<lparr>columns = [PStr ''label'', PStr ''value''],
      rows = [ [PStr ''A'', PInt 10], [PStr ''B'', PInt 20] ]\<rparr>"

section \<open>Properties\<close>

subsection \<open>Sequencing and handlers\<close>

lemma and_then_Inl [simp]: "and_then (Inl e) rest = Inl e"
  by (simp add: and_then_def)

lemma and_then_Inr [simp]: "and_then (Inr v) rest = rest v"
  by (simp add: and_then_def)

lemma try_except_Inl [simp]: "try_except (Inl e) handler = handler e"
  by (simp add: try_except_def)

lemma try_except_Inr [simp]: "try_except (Inr v) handler = Inr v"
  by (simp add: try_except_def)

text \<open>A handler that returns makes the whole statement return.\<close>

lemma try_except_returns:
  "\<exists>v. try_except body (\<lambda>e. Inr (h e)) = Inr v"
  by (cases body) simp_all

subsection \<open>The token\<close>

lemma get_login_token_absent:
  "\<not> os_path_exists fs token_path \<Longrightarrow> get_login_token fs = Inr None"
  by (simp add: get_login_token_def)

lemma get_login_token_read:
  "os_path_exists fs token_path \<Longrightarrow> open_r fs token_path = Inr f \<Longrightarrow> read f = Inr s \<Longrightarrow>
   get_login_token fs = Inr (Some (strip s))"
  by (simp add: get_login_token_def)

lemma get_login_token_open_raises:
  "os_path_exists fs token_path \<Longrightarrow> open_r fs token_path = Inl e \<Longrightarrow>
   get_login_token fs = Inl e"
  by (simp add: get_login_token_def)

lemma get_login_token_read_raises:
  "os_path_exists fs token_path \<Longrightarrow> open_r fs token_path = Inr f \<Longrightarrow> read f = Inl e \<Longrightarrow>
   get_login_token fs = Inl e"
  by (simp add: get_login_token_def)

text \<open>What \<^verbatim>\<open>strip\<close> leaves has no whitespace at either end.\<close>

lemma strip_prefix: "dropWhile isspace s = strip s @ rev (takeWhile isspace (rev (dropWhile isspace s)))"
proof -
  have "xs = rev (dropWhile P (rev xs)) @ rev (takeWhile P (rev xs))" for P and xs :: "'a list"
    by (metis takeWhile_dropWhile_id rev_append rev_rev_ident)
  then show ?thesis
    unfolding strip_def .
qed

lemma strip_no_leading_space: "strip s \<noteq> [] \<Longrightarrow> \<not> isspace (hd (strip s))"
proof -
  let ?t = "dropWhile isspace s"
  assume ne: "strip s \<noteq> []"
  have "hd ?t = hd (strip s @ rev (takeWhile isspace (rev ?t)))"
    using strip_prefix [of s] by simp
  with ne have hd_eq: "hd ?t = hd (strip s)"
    by simp
  from ne have "?t \<noteq> []"
    by (cases ?t) (simp_all add: strip_def)
  then have "\<not> isspace (hd ?t)"
    by (rule hd_dropWhile)
  with hd_eq show ?thesis
    by simp
qed

lemma strip_no_trailing_space: "strip s \<noteq> [] \<Longrightarrow> \<not> isspace (last (strip s))"
proof -
  assume ne: "strip s \<noteq> []"
  then have "dropWhile isspace (rev (dropWhile isspace s)) \<noteq> []"
    by (simp add: strip_def)
  then have "\<not> isspace (hd (dropWhile isspace (rev (dropWhile isspace s))))"
    by (rule hd_dropWhile)
  then show ?thesis
    using ne by (simp add: strip_def last_rev)
qed

lemma oauth_params_keys:
  "oauth_params cfg t ''token'' = Some (PStr t)"
  "oauth_params cfg t ''authenticator'' = Some (PStr ''oauth'')"
  "oauth_params cfg t ''password'' = None"
  "oauth_params cfg t ''user'' = None"
  by (simp_all add: oauth_params_def)

lemma password_params_keys:
  "password_params cfg ''user'' = Some (SNOWFLAKE_USER cfg)"
  "password_params cfg ''password'' = Some (SNOWFLAKE_PASSWORD cfg)"
  "password_params cfg ''token'' = None"
  "password_params cfg ''authenticator'' = None"
  by (simp_all add: password_params_def)

lemma strip_newline: "strip [CHR 0x0A] = []"
  by (simp add: strip_def isspace_def)

lemma strip_example: "strip (''  tok-123 '' @ [CHR 0x0A]) = ''tok-123''"
  by (simp add: strip_def isspace_def)

subsection \<open>Selection of the authentication mode\<close>

text \<open>
  C1, as the specification states it, fails: a token file that exists and is readable does
  not always give token parameters. When the file holds only a line feed, the stripped
  token is the empty string, which \<^verbatim>\<open>if token:\<close> takes as false: the parameters are
  those of password authentication, with a \<^verbatim>\<open>password\<close> key and no \<^verbatim>\<open>token\<close> key.
\<close>

theorem get_connection_params_blank_file_counterexample:
  "os_path_exists (fs_with (Inr [CHR 0x0A])) token_path
   \<and> open_r (fs_with (Inr [CHR 0x0A])) token_path = Inr (TextFile (Inr [CHR 0x0A]))
   \<and> read (TextFile (Inr [CHR 0x0A])) = Inr [CHR 0x0A]
   \<and> get_connection_params cfg_example (fs_with (Inr [CHR 0x0A])) = Inr (password_params cfg_example)
   \<and> password_params cfg_example ''token'' = None
   \<and> password_params cfg_example ''authenticator'' = None
   \<and> password_params cfg_example ''password'' = Some (PStr ''secret'')
   \<and> password_params cfg_example ''user'' = Some (PStr ''analyst'')"
  by (simp add: get_connection_params_def get_login_token_def fs_with_def strip_def
      isspace_def truthy_def password_params_def cfg_example_def)

text \<open>
  C1, amended: if the token file exists, is readable and its content does not strip to the
  empty string, \<^verbatim>\<open>get_connection_params\<close> returns a mapping that has the stripped token
  under \<^verbatim>\<open>token\<close> and \<^verbatim>\<open>oauth\<close> under \<^verbatim>\<open>authenticator\<close>, and has neither a \<^verbatim>\<open>password\<close>
  nor a \<^verbatim>\<open>user\<close> key; if the file does not exist, it returns a mapping that has the
  configured values under \<^verbatim>\<open>user\<close> and \<^verbatim>\<open>password\<close>, and has neither a \<^verbatim>\<open>token\<close> nor
  an \<^verbatim>\<open>authenticator\<close> key.
\<close>

theorem get_connection_params_auth_mode:
  "(os_path_exists fs token_path \<and> open_r fs token_path = Inr f \<and> read f = Inr s
      \<and> strip s \<noteq> [] \<longrightarrow>
      (\<exists>params. get_connection_params cfg fs = Inr params
         \<and> params ''token'' = Some (PStr (strip s))
         \<and> params ''authenticator'' = Some (PStr ''oauth'')
         \<and> params ''password'' = None
         \<and> params ''user'' = None))
   \<and> (\<not> os_path_exists fs token_path \<longrightarrow>
      (\<exists>params. get_connection_params cfg fs = Inr params
         \<and> params ''user'' = Some (SNOWFLAKE_USER cfg)
         \<and> params ''password'' = Some (SNOWFLAKE_PASSWORD cfg)
         \<and> params ''token'' = None
         \<and> params ''authenticator'' = None))"
proof (intro conjI impI)
  assume "os_path_exists fs token_path \<and> open_r fs token_path = Inr f \<and> read f = Inr s
    \<and> strip s \<noteq> []"
  then have "get_login_token fs = Inr (Some (strip s))" and "truthy (Some (strip s))"
    by (simp_all add: get_login_token_read truthy_def)
  then have "get_connection_params cfg fs = Inr (oauth_params cfg (strip s))"
    by (simp add: get_connection_params_def)
  then show "\<exists>params. get_connection_params cfg fs = Inr params
         \<and> params ''token'' = Some (PStr (strip s))
         \<and> params ''authenticator'' = Some (PStr ''oauth'')
         \<and> params ''password'' = None
         \<and> params ''user'' = None"
    by (simp add: oauth_params_keys)
next
  assume "\<not> os_path_exists fs token_path"
  then have "get_login_token fs = Inr None"
    by (rule get_login_token_absent)
  then have "get_connection_params cfg fs = Inr (password_params cfg)"
    by (simp add: get_connection_params_def truthy_def)
  then show "\<exists>params. get_connection_params cfg fs = Inr params
         \<and> params ''user'' = Some (SNOWFLAKE_USER cfg)
         \<and> params ''password'' = Some (SNOWFLAKE_PASSWORD cfg)
         \<and> params ''token'' = None
         \<and> params ''authenticator'' = None"
    by (simp add: password_params_keys)
qed

theorem get_connection_params_auth_mode_witness:
  "(os_path_exists (fs_with (Inr (''  tok-123 '' @ [CHR 0x0A]))) token_path
    \<and> open_r (fs_with (Inr (''  tok-123 '' @ [CHR 0x0A]))) token_path
        = Inr (TextFile (Inr (''  tok-123 '' @ [CHR 0x0A])))
    \<and> read (TextFile (Inr (''  tok-123 '' @ [CHR 0x0A]))) = Inr (''  tok-123 '' @ [CHR 0x0A])
    \<and> strip (''  tok-123 '' @ [CHR 0x0A]) \<noteq> []
    \<and> (\<exists>params. get_connection_params cfg_example (fs_with (Inr (''  tok-123 '' @ [CHR 0x0A])))
          = Inr params
        \<and> params ''token'' = Some (PStr ''tok-123'')
        \<and> params ''authenticator'' = Some (PStr ''oauth'')
        \<and> params ''password'' = None
        \<and> params ''user'' = None))
   \<and> (\<not> os_path_exists fs_absent token_path
    \<and> (\<exists>params. get_connection_params cfg_example fs_absent = Inr params
        \<and> params ''user'' = Some (PStr ''analyst'')
        \<and> params ''password'' = Some (PStr ''secret'')
        \<and> params ''token'' = None
        \<and> params ''authenticator'' = None))"
proof -
  let ?s = "''  tok-123 '' @ [CHR 0x0A]"
  have present: "os_path_exists (fs_with (Inr ?s)) token_path
      \<and> open_r (fs_with (Inr ?s)) token_path = Inr (TextFile (Inr ?s))
      \<and> read (TextFile (Inr ?s)) = Inr ?s \<and> strip ?s \<noteq> []"
    by (simp add: fs_with_def strip_def isspace_def)
  have absent: "\<not> os_path_exists fs_absent token_path"
    by (simp add: fs_absent_def)
  have cfg: "SNOWFLAKE_USER cfg_example = PStr ''analyst''"
    "SNOWFLAKE_PASSWORD cfg_example = PStr ''secret''"
    by (simp_all add: cfg_example_def)
  from get_connection_params_auth_mode
    [of "fs_with (Inr ?s)" "TextFile (Inr ?s)" ?s cfg_example]
    get_connection_params_auth_mode [of fs_absent _ _ cfg_example]
    present absent cfg strip_example
  show ?thesis
    by simp
qed

text \<open>
  C9: if the token file exists, is readable and its content strips to the empty string,
  \<^verbatim>\<open>get_connection_params\<close> returns the mapping of password authentication, with the
  configured user and password and with neither a token nor an authenticator.
\<close>

theorem get_connection_params_blank_token:
  assumes "os_path_exists fs token_path"
    and "open_r fs token_path = Inr f"
    and "read f = Inr s"
    and "strip s = []"
  shows "get_connection_params cfg fs = Inr (password_params cfg)
    \<and> password_params cfg ''user'' = Some (SNOWFLAKE_USER cfg)
    \<and> password_params cfg ''password'' = Some (SNOWFLAKE_PASSWORD cfg)
    \<and> password_params cfg ''token'' = None
    \<and> password_params cfg ''authenticator'' = None"
proof -
  from assms have "get_login_token fs = Inr (Some [])"
    by (simp add: get_login_token_read)
  then have "get_connection_params cfg fs = Inr (password_params cfg)"
    by (simp add: get_connection_params_def truthy_def)
  then show ?thesis
    by (simp add: password_params_keys)
qed

theorem get_connection_params_blank_token_witness:
  "os_path_exists (fs_with (Inr ''   '')) token_path
   \<and> open_r (fs_with (Inr ''   '')) token_path = Inr (TextFile (Inr ''   ''))
   \<and> read (TextFile (Inr ''   '')) = Inr ''   ''
   \<and> strip ''   '' = []
   \<and> get_connection_params cfg_example (fs_with (Inr ''   '')) = Inr (password_params cfg_example)
   \<and> password_params cfg_example ''user'' = Some (PStr ''analyst'')
   \<and> password_params cfg_example ''password'' = Some (PStr ''secret'')
   \<and> password_params cfg_example ''token'' = None
   \<and> password_params cfg_example ''authenticator'' = None"
proof -
  have h1: "os_path_exists (fs_with (Inr ''   '')) token_path"
    by (simp add: fs_with_def)
  have h2: "open_r (fs_with (Inr ''   '')) token_path = Inr (TextFile (Inr ''   ''))"
    by (simp add: fs_with_def)
  have h3: "read (TextFile (Inr ''   '')) = Inr ''   ''"
    by simp
  have h4: "strip ''   '' = []"
    by (simp add: strip_def isspace_def)
  from get_connection_params_blank_token [OF h1 h2 h3 h4, of cfg_example] h1 h2 h3 h4
  show ?thesis
    by (simp add: cfg_example_def)
qed

text \<open>
  C6: if the token file exists and opening or reading it raises, the exception is the
  outcome of \<^verbatim>\<open>get_login_token\<close>, and of \<^verbatim>\<open>get_connection_params\<close> that calls it:
  neither returns, so there is no fall back to the password and no \<^verbatim>\<open>None\<close> token.
\<close>

theorem get_login_token_read_error_propagates:
  assumes "os_path_exists fs token_path"
    and "open_r fs token_path = Inl e \<or> (\<exists>f. open_r fs token_path = Inr f \<and> read f = Inl e)"
  shows "get_login_token fs = Inl e \<and> get_connection_params cfg fs = Inl e"
proof -
  from assms have "get_login_token fs = Inl e"
    by (auto simp: get_login_token_open_raises get_login_token_read_raises)
  then show ?thesis
    by (simp add: get_connection_params_def)
qed

theorem get_login_token_read_error_propagates_witness:
  "os_path_exists fs_denied token_path
   \<and> open_r fs_denied token_path = Inl (Exn ''PermissionError'' token_path)
   \<and> get_login_token fs_denied = Inl (Exn ''PermissionError'' token_path)
   \<and> get_connection_params cfg_example fs_denied = Inl (Exn ''PermissionError'' token_path)
   \<and> os_path_exists (fs_with (Inl (Exn ''UnicodeDecodeError'' ''invalid start byte''))) token_path
   \<and> open_r (fs_with (Inl (Exn ''UnicodeDecodeError'' ''invalid start byte''))) token_path
       = Inr (TextFile (Inl (Exn ''UnicodeDecodeError'' ''invalid start byte'')))
   \<and> read (TextFile (Inl (Exn ''UnicodeDecodeError'' ''invalid start byte'')))
       = Inl (Exn ''UnicodeDecodeError'' ''invalid start byte'')
   \<and> get_login_token (fs_with (Inl (Exn ''UnicodeDecodeError'' ''invalid start byte'')))
       = Inl (Exn ''UnicodeDecodeError'' ''invalid start byte'')
   \<and> get_connection_params cfg_example (fs_with (Inl (Exn ''UnicodeDecodeError'' ''invalid start byte'')))
       = Inl (Exn ''UnicodeDecodeError'' ''invalid start byte'')"
proof -
  let ?e = "Exn ''UnicodeDecodeError'' ''invalid start byte''"
  have d1: "os_path_exists fs_denied token_path"
    by (simp add: fs_denied_def)
  have d2: "open_r fs_denied token_path = Inl (Exn ''PermissionError'' token_path)"
    by (simp add: fs_denied_def)
  have r1: "os_path_exists (fs_with (Inl ?e)) token_path"
    by (simp add: fs_with_def)
  have r2: "open_r (fs_with (Inl ?e)) token_path = Inr (TextFile (Inl ?e))" 
    by (simp add: fs_with_def)
  have r3: "read (TextFile (Inl ?e)) = Inl ?e"
    by simp
  from r2 r3 have r4: "open_r (fs_with (Inl ?e)) token_path = Inl ?e
      \<or> (\<exists>f. open_r (fs_with (Inl ?e)) token_path = Inr f \<and> read f = Inl ?e)"
    by simp
  from get_login_token_read_error_propagates [OF d1 disjI1 [OF d2], of cfg_example]
    get_login_token_read_error_propagates [OF r1 r4, of cfg_example]
    d1 d2 r1 r2 r3
  show ?thesis
    by simp
qed

subsection \<open>Metadata fetch\<close>

text \<open>The steps of the \<^verbatim>\<open>try\<close> block, one at a time.\<close>

lemma get_snowflake_metadata_try_no_rows:
  "cursor conn = Inr cur \<Longrightarrow> execute cur metadata_query = Inr ex \<Longrightarrow>
   fetchall ex = Inr [] \<Longrightarrow> close ex = Inr () \<Longrightarrow>
   get_snowflake_metadata_try pd conn = Inr (Some Map.empty)"
  by (simp add: get_snowflake_metadata_try_def)

lemma get_snowflake_metadata_try_execute_raises:
  "cursor conn = Inr cur \<Longrightarrow> execute cur metadata_query = Inl e \<Longrightarrow>
   get_snowflake_metadata_try pd conn = Inl e"
  by (simp add: get_snowflake_metadata_try_def)

lemma get_snowflake_metadata_try_reshape_raises:
  "cursor conn = Inr cur \<Longrightarrow> execute cur metadata_query = Inr ex \<Longrightarrow>
   fetchall ex = Inr (r # rs) \<Longrightarrow> close ex = Inr () \<Longrightarrow>
   pd_DataFrame pd (r # rs) [PStr ''TABLE_NAME'', PStr ''COLUMN_NAME'', PStr ''DATA_TYPE''] = Inl e \<Longrightarrow>
   get_snowflake_metadata_try pd conn = Inl e"
  by (simp add: get_snowflake_metadata_try_def)

lemma get_snowflake_metadata_returns:
  "\<exists>r. get_snowflake_metadata pd conn = Inr r"
  unfolding get_snowflake_metadata_def by (rule try_except_returns)

text \<open>
  C4: when the calls \<^verbatim>\<open>cursor()\<close>, \<^verbatim>\<open>execute\<close> of the introspection query,
  \<^verbatim>\<open>fetchall()\<close> and \<^verbatim>\<open>close()\<close> all return and no row was fetched,
  \<^verbatim>\<open>get_snowflake_metadata\<close> returns the empty dictionary, which is not \<^verbatim>\<open>None\<close>.
\<close>

theorem get_snowflake_metadata_no_rows:
  assumes "cursor conn = Inr cur"
    and "execute cur metadata_query = Inr ex"
    and "fetchall ex = Inr []"
    and "close ex = Inr ()"
  shows "get_snowflake_metadata pd conn = Inr (Some Map.empty)
    \<and> get_snowflake_metadata pd conn \<noteq> Inr None"
proof -
  from assms have "get_snowflake_metadata_try pd conn = Inr (Some Map.empty)"
    by (rule get_snowflake_metadata_try_no_rows)
  then show ?thesis
    by (simp add: get_snowflake_metadata_def)
qed

theorem get_snowflake_metadata_no_rows_witness:
  "cursor conn_no_rows = Inr \<lparr>execute = (\<lambda>sql. Inr no_rows_cursor)\<rparr>
   \<and> execute \<lparr>execute = (\<lambda>sql. Inr no_rows_cursor)\<rparr> metadata_query = Inr no_rows_cursor
   \<and> fetchall no_rows_cursor = Inr []
   \<and> close no_rows_cursor = Inr ()
   \<and> get_snowflake_metadata pandas_example conn_no_rows = Inr (Some Map.empty)
   \<and> get_snowflake_metadata pandas_example conn_no_rows \<noteq> Inr None"
proof -
  have h1: "cursor conn_no_rows = Inr \<lparr>execute = (\<lambda>sql. Inr no_rows_cursor)\<rparr>"
    by (simp add: conn_no_rows_def conn_of_def)
  have h2: "execute \<lparr>execute = (\<lambda>sql. Inr no_rows_cursor)\<rparr> metadata_query = Inr no_rows_cursor"
    by simp
  have h3: "fetchall no_rows_cursor = Inr []"
    by (simp add: no_rows_cursor_def)
  have h4: "close no_rows_cursor = Inr ()"
    by (simp add: no_rows_cursor_def)
  from get_snowflake_metadata_no_rows [OF h1 h2 h3 h4, of pandas_example] h1 h2 h3 h4
  show ?thesis
    by simp
qed

text \<open>
  C5: when a statement of the \<^verbatim>\<open>try\<close> block raises (a call of the cursor or the
  reshaping with pandas), \<^verbatim>\<open>get_snowflake_metadata\<close> does not raise: it returns
  \<^verbatim>\<open>None\<close>, which differs from the empty dictionary returned when there is no row.
\<close>

theorem get_snowflake_metadata_error_is_none:
  assumes "get_snowflake_metadata_try pd conn = Inl e"
  shows "get_snowflake_metadata pd conn = Inr None
    \<and> get_snowflake_metadata pd conn \<noteq> Inr (Some Map.empty)
    \<and> get_snowflake_metadata pd conn \<noteq> Inl e"
  using assms by (simp add: get_snowflake_metadata_def)

theorem get_snowflake_metadata_error_is_none_witness:
  "(get_snowflake_metadata_try pandas_example conn_failing = Inl sql_error
    \<and> get_snowflake_metadata pandas_example conn_failing = Inr None
    \<and> get_snowflake_metadata pandas_example conn_failing \<noteq> Inr (Some Map.empty)
    \<and> get_snowflake_metadata pandas_example conn_failing \<noteq> Inl sql_error)
   \<and> (get_snowflake_metadata_try pandas_example conn_short_row
        = Inl (Exn ''ValueError'' ''columns passed do not match the data'')
    \<and> get_snowflake_metadata pandas_example conn_short_row = Inr None)"
proof -
  have failing: "get_snowflake_metadata_try pandas_example conn_failing = Inl sql_error"
    by (simp add: get_snowflake_metadata_try_def conn_failing_def conn_of_def)
  have short: "get_snowflake_metadata_try pandas_example conn_short_row
      = Inl (Exn ''ValueError'' ''columns passed do not match the data'')"
    by (simp add: get_snowflake_metadata_try_def conn_short_row_def conn_of_def pandas_example_def)
  from get_snowflake_metadata_error_is_none [OF failing]
    get_snowflake_metadata_error_is_none [OF short] failing short
  show ?thesis
    by simp
qed

subsection \<open>Query execution\<close>

lemma query_snowflake_try_no_rows:
  "cursor conn = Inr cur \<Longrightarrow> execute cur sql_query = Inr ex \<Longrightarrow> fetchall ex = Inr [] \<Longrightarrow>
   description ex = Some descs \<Longrightarrow> close ex = Inr () \<Longrightarrow>
   query_snowflake_try pd conn sql_query = Inr empty_frame"
  by (simp add: query_snowflake_try_def column_names_def)

lemma query_snowflake_try_cursor_raises:
  "cursor conn = Inl e \<Longrightarrow> query_snowflake_try pd conn sql_query = Inl e"
  by (simp add: query_snowflake_try_def)

lemma query_snowflake_try_execute_raises:
  "cursor conn = Inr cur \<Longrightarrow> execute cur sql_query = Inl e \<Longrightarrow>
   query_snowflake_try pd conn sql_query = Inl e"
  by (simp add: query_snowflake_try_def)

lemma query_snowflake_try_fetchall_raises:
  "cursor conn = Inr cur \<Longrightarrow> execute cur sql_query = Inr ex \<Longrightarrow> fetchall ex = Inl e \<Longrightarrow>
   query_snowflake_try pd conn sql_query = Inl e"
  by (simp add: query_snowflake_try_def)

lemma query_snowflake_returns:
  "\<exists>df. query_snowflake pd conn sql_query = Inr df"
  unfolding query_snowflake_def by (rule try_except_returns)

text \<open>
  C2, as the specification states it, fails: for a statement that succeeds with no row and
  whose cursor describes the columns \<^verbatim>\<open>ID\<close> and \<^verbatim>\<open>NAME\<close>, the returned table is
  \<^verbatim>\<open>pd.DataFrame()\<close>, whose list of column labels is empty.
\<close>

theorem query_snowflake_empty_headers_counterexample:
  "fetchall no_rows_cursor = Inr []
   \<and> column_names (description no_rows_cursor) = Inr [PStr ''ID'', PStr ''NAME'']
   \<and> query_snowflake pandas_example conn_no_rows ''SELECT ID, NAME FROM T WHERE 1 = 0''
       = Inr \<lparr>columns = [], rows = []\<rparr>
   \<and> columns \<lparr>columns = [], rows = []\<rparr> \<noteq> [PStr ''ID'', PStr ''NAME'']"
  by (simp add: query_snowflake_def query_snowflake_try_def conn_no_rows_def conn_of_def
      no_rows_cursor_def column_names_def empty_frame_def)

text \<open>
  C2, amended: when the calls \<^verbatim>\<open>cursor()\<close>, \<^verbatim>\<open>execute\<close>, \<^verbatim>\<open>fetchall()\<close> and \<^verbatim>\<open>close()\<close>
  all return, the cursor has a description and no row was fetched, \<^verbatim>\<open>query_snowflake\<close>
  returns the table \<^verbatim>\<open>pd.DataFrame()\<close>: no rows and no column labels, whatever names the
  description reports.
\<close>

theorem query_snowflake_no_rows:
  assumes "cursor conn = Inr cur"
    and "execute cur sql_query = Inr ex"
    and "fetchall ex = Inr []"
    and "description ex = Some descs"
    and "close ex = Inr ()"
  shows "query_snowflake pd conn sql_query = Inr empty_frame
    \<and> rows empty_frame = [] \<and> columns empty_frame = []"
proof -
  from assms have "query_snowflake_try pd conn sql_query = Inr empty_frame"
    by (rule query_snowflake_try_no_rows)
  then show ?thesis
    by (simp add: query_snowflake_def empty_frame_def)
qed

theorem query_snowflake_no_rows_witness:
  "cursor conn_no_rows = Inr \<lparr>execute = (\<lambda>sql. Inr no_rows_cursor)\<rparr>
   \<and> execute \<lparr>execute = (\<lambda>sql. Inr no_rows_cursor)\<rparr> ''SELECT ID, NAME FROM T WHERE 1 = 0''
       = Inr no_rows_cursor
   \<and> fetchall no_rows_cursor = Inr []
   \<and> description no_rows_cursor = Some [ResultMetadata ''ID'' 0, ResultMetadata ''NAME'' 2]
   \<and> close no_rows_cursor = Inr ()
   \<and> query_snowflake pandas_example conn_no_rows ''SELECT ID, NAME FROM T WHERE 1 = 0''
       = Inr empty_frame
   \<and> rows empty_frame = [] \<and> columns empty_frame = []"
proof -
  let ?q = "''SELECT ID, NAME FROM T WHERE 1 = 0''"
  have h1: "cursor conn_no_rows = Inr \<lparr>execute = (\<lambda>sql. Inr no_rows_cursor)\<rparr>"
    by (simp add: conn_no_rows_def conn_of_def)
  have h2: "execute \<lparr>execute = (\<lambda>sql. Inr no_rows_cursor)\<rparr> ?q = Inr no_rows_cursor"
    by simp
  have h3: "fetchall no_rows_cursor = Inr []"
    by (simp add: no_rows_cursor_def)
  have h4: "description no_rows_cursor = Some [ResultMetadata ''ID'' 0, ResultMetadata ''NAME'' 2]"
    by (simp add: no_rows_cursor_def)
  have h5: "close no_rows_cursor = Inr ()"
    by (simp add: no_rows_cursor_def)
  from query_snowflake_no_rows [OF h1 h2 h3 h4 h5, of pandas_example] h1 h2 h3 h4 h5
  show ?thesis
    by simp
qed

text \<open>
  C3: when a statement of the \<^verbatim>\<open>try\<close> block raises an exception \<open>e\<close> (the execution of the
  query, or another call of the cursor or of pandas), \<^verbatim>\<open>query_snowflake\<close> does not raise:
  it returns the table with the one column \<^verbatim>\<open>Error\<close> and one row, whose cell is \<^verbatim>\<open>str(e)\<close>.
\<close>

theorem query_snowflake_error_as_data:
  assumes "query_snowflake_try pd conn sql_query = Inl e"
  shows "query_snowflake pd conn sql_query = Inr (error_frame (str e))
    \<and> columns (error_frame (str e)) = [PStr ''Error'']
    \<and> rows (error_frame (str e)) = [ [PStr (str e)] ]
    \<and> query_snowflake pd conn sql_query \<noteq> Inl e"
  using assms by (simp add: query_snowflake_def error_frame_def)

theorem query_snowflake_error_as_data_witness:
  "execute \<lparr>execute = (\<lambda>sql. Inl sql_error)\<rparr> ''SELEC 1'' = Inl sql_error
   \<and> query_snowflake_try pandas_example conn_failing ''SELEC 1'' = Inl sql_error
   \<and> query_snowflake pandas_example conn_failing ''SELEC 1''
       = Inr \<lparr>columns = [PStr ''Error''], rows = [ [PStr ''SQL compilation error''] ]\<rparr>
   \<and> query_snowflake pandas_example conn_failing ''SELEC 1'' \<noteq> Inl sql_error"
proof -
  have c: "cursor conn_failing = Inr \<lparr>execute = (\<lambda>sql. Inl sql_error)\<rparr>"
    by (simp add: conn_failing_def conn_of_def)
  have x: "execute \<lparr>execute = (\<lambda>sql. Inl sql_error)\<rparr> ''SELEC 1'' = Inl sql_error"
    by simp
  have h: "query_snowflake_try pandas_example conn_failing ''SELEC 1'' = Inl sql_error"
    using c x by (rule query_snowflake_try_execute_raises)
  from query_snowflake_error_as_data [OF h] h x
  show ?thesis
    by (simp add: error_frame_def sql_error_def)
qed

subsection \<open>Chart generation\<close>

lemma visual_generate_returns:
  "\<exists>html. visual_generate plt query data response = Inr html"
  unfolding visual_generate_def by (rule try_except_returns)

text \<open>
  Where the guard lets the table through and plotly returns at each of the three calls,
  the result is the markup that \<^verbatim>\<open>to_html\<close> gave for the figure made from the table, its
  first two labels and the title. What that markup contains is plotly's concern.
\<close>

lemma visual_generate_renders:
  "rows data \<noteq> [] \<Longrightarrow> 2 \<le> length (columns data) \<Longrightarrow>
   px_bar plt data (columns data ! 0) (columns data ! 1) response = Inr fig \<Longrightarrow>
   update_layout plt fig ''#2B2C2E'' ''#2B2C2E'' ''#FFFFFF'' = Inr fig' \<Longrightarrow>
   to_html plt fig' False = Inr html \<Longrightarrow>
   visual_generate plt query data response = Inr html"
  by (auto simp: visual_generate_def visual_generate_try_def df_empty_def)

text \<open>
  C7: for a table with fewer than two columns, and so for a table with exactly one,
  \<^verbatim>\<open>visual_generate\<close> returns the empty string and does not raise.
\<close>

theorem visual_generate_few_columns:
  assumes "length (columns data) < 2"
  shows "visual_generate plt query data response = Inr ''''"
  using assms by (simp add: visual_generate_def visual_generate_try_def)

theorem visual_generate_few_columns_witness:
  "length (columns table_one_column) = 1
   \<and> length (columns table_one_column) < 2
   \<and> visual_generate plotly_example ''SELECT label FROM T'' table_one_column ''Labels'' = Inr ''''"
proof -
  have h: "length (columns table_one_column) < 2"
    by (simp add: table_one_column_def)
  from visual_generate_few_columns [OF h, of plotly_example] h
  show ?thesis
    by (simp add: table_one_column_def)
qed

text \<open>
  C10: for a table with no rows, \<^verbatim>\<open>visual_generate\<close> returns the empty string, however
  many columns the table has.
\<close>

theorem visual_generate_no_rows:
  assumes "rows data = []"
  shows "visual_generate plt query data response = Inr ''''"
  using assms by (simp add: visual_generate_def visual_generate_try_def df_empty_def)

theorem visual_generate_no_rows_witness:
  "rows table_no_rows = []
   \<and> length (columns table_no_rows) = 2
   \<and> visual_generate plotly_example ''SELECT label, value FROM T'' table_no_rows ''Values'' = Inr ''''"
proof -
  have h: "rows table_no_rows = []"
    by (simp add: table_no_rows_def)
  from visual_generate_no_rows [OF h, of plotly_example] h
  show ?thesis
    by (simp add: table_no_rows_def)
qed

subsection \<open>The paths that return data, on the example worlds\<close>

lemma query_snowflake_two_rows:
  "query_snowflake pandas_example conn_two_rows ''SELECT label, value FROM T'' = Inr table_label_value"
  by (simp add: query_snowflake_def query_snowflake_try_def conn_two_rows_def conn_of_def
      column_names_def pandas_example_def table_label_value_def)

lemma visual_generate_label_value:
  "visual_generate plotly_example ''SELECT label, value FROM T'' table_label_value ''Values''
     = Inr ''<div>Values</div>''"
  by (simp add: visual_generate_def visual_generate_try_def df_empty_def plotly_example_def
      table_label_value_def)

end
